theory Spec2Isabelle
  imports Complex_Main
begin

section \<open>Data model (types.ts)\<close>

text \<open>
  JavaScript numbers are modelled as \<^typ>\<open>real\<close>: the geometry below is the exact
  arithmetic that the double-precision code approximates. DOM attributes that are
  unsigned integers (\<open>canvas.width\<close>, \<open>videoWidth\<close>, \<open>readyState\<close>) are
  \<^typ>\<open>nat\<close>. Field names that would hide a HOL constant or a common variable carry a
  suffix (\<open>size\<close> is \<open>size_cam\<close>, \<open>position.x\<close> is \<open>pos_x\<close>).
\<close>

datatype camera_shape = circle | square | rect

record position =
  pos_x :: real
  pos_y :: real

record camera_config =
  size_cam :: real
  borderColor :: string
  borderWidth :: real
  shape :: camera_shape
  position :: position

text \<open>A \<open>Blob\<close> is a byte sequence with a MIME type; \<^typ>\<open>char\<close> is an 8-bit byte.\<close>

record blob =
  bytes :: "char list"
  blob_type :: string

definition blob_size :: "blob \<Rightarrow> nat" where
  "blob_size b = length (bytes b)"

text \<open>\<open>new Blob(parts, {type})\<close> concatenates the parts in order.\<close>

definition new_Blob :: "blob list \<Rightarrow> string \<Rightarrow> blob" where
  "new_Blob parts ty = \<lparr>bytes = concat (map bytes parts), blob_type = ty\<rparr>"

section \<open>The canvas and the compositor tick (useRecorder.ts, draw)\<close>

datatype image_source = ScreenVideo | CameraVideo

text \<open>
  One constructor per canvas call that \<open>draw\<close> makes; the content of a canvas is the
  sequence of calls made on it since its bitmap was last reset. An angle is a number of
  radians, or a multiple of \<open>Math.PI\<close> kept as its factor: \<open>PiTimes 2\<close> is
  \<open>Math.PI * 2\<close>, a full turn.
\<close>

datatype angle = Rad real | PiTimes real

datatype canvas_op =
    DrawImage image_source real real real real
  | FillStyle string
  | FillRect real real real real
  | Save
  | BeginPath
  | Arc real real real angle angle
  | RoundRect real real real real real
  | RectPath real real real real
  | ClosePath
  | ShadowColor string
  | ShadowBlur real
  | ShadowOffsetX real
  | ShadowOffsetY real
  | Clip
  | StrokeStyle string
  | LineWidth real
  | Stroke
  | Restore

record canvas =
  cwidth :: nat
  cheight :: nat
  content :: "canvas_op list"

record video =
  readyState :: nat
  videoWidth :: nat
  videoHeight :: nat

text \<open>The 2D context: whether the browser has \<open>ctx.roundRect\<close>.\<close>

record ctx2d =
  has_roundRect :: bool

record cover =
  offX :: real
  offY :: real
  drawW :: real
  drawH :: real

text \<open>
  Lines 176-193 of \<open>draw\<close>, the centre crop. The spec calls it \<open>coverFit\<close>; the
  arguments are the camera's \<open>videoWidth\<close>, \<open>videoHeight\<close> and \<open>camDrawSize\<close>.
  The quotients are those of the reals, which agree with the JavaScript ones for a
  positive width and height; \<open>draw\<close> uses the result in no other case (see
  \<open>cameraImageOps\<close>).
\<close>

definition coverFit :: "real \<Rightarrow> real \<Rightarrow> real \<Rightarrow> cover" where
  "coverFit vw vh camDrawSize =
     (let aspect = vw / vh in
      if aspect > 1 then
        (let dW = camDrawSize * aspect in
         \<lparr>offX = - (dW - camDrawSize) / 2, offY = 0, drawW = dW, drawH = camDrawSize\<rparr>)
      else
        (let dH = camDrawSize / aspect in
         \<lparr>offX = 0, offY = - (dH - camDrawSize) / 2, drawW = camDrawSize, drawH = dH\<rparr>))"

text \<open>Lines 127-132: the screen, or the black placeholder.\<close>

definition screenOps :: "canvas \<Rightarrow> video \<Rightarrow> canvas_op list" where
  "screenOps cv sv =
     (if readyState sv \<ge> 2 then
        [DrawImage ScreenVideo 0 0 (real (cwidth cv)) (real (cheight cv))]
      else
        [FillStyle ''#000'', FillRect 0 0 (real (cwidth cv)) (real (cheight cv))])"

text \<open>Line 153: the corner radius of a shape that is not a circle.\<close>

definition radius :: "camera_shape \<Rightarrow> real \<Rightarrow> real" where
  "radius sh camDrawSize = (if sh = square then camDrawSize * 0.15 else camDrawSize * 0.35)"

text \<open>Lines 147-161: the clip path of the overlay.\<close>

definition pathOps :: "ctx2d \<Rightarrow> camera_shape \<Rightarrow> real \<Rightarrow> real \<Rightarrow> real \<Rightarrow> canvas_op list" where
  "pathOps c sh x y camDrawSize =
     (if sh = circle then
        [Arc (x + camDrawSize / 2) (y + camDrawSize / 2) (camDrawSize / 2) (Rad 0) (PiTimes 2)]
      else
        (if has_roundRect c then [RoundRect x y camDrawSize camDrawSize (radius sh camDrawSize)]
         else [RectPath x y camDrawSize camDrawSize]))"

text \<open>
  Line 196. With \<open>videoWidth\<close> or \<open>videoHeight\<close> zero the JavaScript division gives
  an infinity or NaN in \<open>drawW\<close> or \<open>drawH\<close>, and \<open>drawImage\<close> returns without
  drawing when an argument is not finite; the real-number quotient is used only when
  both are positive.
\<close>

definition cameraImageOps :: "video \<Rightarrow> real \<Rightarrow> real \<Rightarrow> real \<Rightarrow> canvas_op list" where
  "cameraImageOps cam x y camDrawSize =
     (if videoWidth cam = 0 \<or> videoHeight cam = 0 then []
      else
        (let f = coverFit (real (videoWidth cam)) (real (videoHeight cam)) camDrawSize in
         [DrawImage CameraVideo (x + offX f) (y + offY f) (drawW f) (drawH f)]))"

text \<open>Lines 201-205: the inner border.\<close>

definition borderOps :: "camera_config \<Rightarrow> canvas_op list" where
  "borderOps cfg =
     (if borderWidth cfg > 0 then
        [StrokeStyle (borderColor cfg), LineWidth (borderWidth cfg * 2), Stroke]
      else [])"

text \<open>Lines 135-208: the picture-in-picture overlay.\<close>

definition cameraOps :: "ctx2d \<Rightarrow> canvas \<Rightarrow> video \<Rightarrow> camera_config \<Rightarrow> canvas_op list" where
  "cameraOps c cv cam cfg =
     (if readyState cam \<ge> 2 then
        (let minDim = min (real (cwidth cv)) (real (cheight cv));
             camDrawSize = minDim * size_cam cfg;
             x = pos_x (position cfg) * real (cwidth cv);
             y = pos_y (position cfg) * real (cheight cv)
         in [Save, BeginPath] @ pathOps c (shape cfg) x y camDrawSize @
            [ClosePath,
             ShadowColor ''rgba(0, 0, 0, 0.5)'', ShadowBlur 20, ShadowOffsetX 0, ShadowOffsetY 4,
             Clip,
             ShadowColor ''transparent''] @
            cameraImageOps cam x y camDrawSize @
            borderOps cfg @
            [Restore])
      else [])"

text \<open>What one tick draws once the guard of line 122 has passed.\<close>

definition drawOps :: "ctx2d \<Rightarrow> canvas \<Rightarrow> video \<Rightarrow> video \<Rightarrow> camera_config \<Rightarrow> canvas_op list" where
  "drawOps c cv sv cam cfg = screenOps cv sv @ cameraOps c cv cam cfg"

section \<open>The recorder hook (useRecorder.ts)\<close>

text \<open>\<open>MediaRecorder.state\<close> and the recorder's \<open>mimeType\<close>.\<close>

datatype recording_state = inactive | recording | paused

record media_recorder =
  rstate :: recording_state
  mimeType :: string

text \<open>
  A \<open>MediaStream\<close>: the number of its audio tracks, the \<open>getSettings()\<close> of its
  first video track, and whether \<open>stop()\<close> has been called on its tracks.
\<close>

record media_stream =
  audioTracks :: nat
  settingsWidth :: "nat option"
  settingsHeight :: "nat option"
  tracksStopped :: bool

record audio_context =
  micConnected :: bool
  sysConnected :: bool

datatype object_url = ObjectURL blob

datatype data_url = DataURL string "canvas_op list"

record recording_data =
  blob :: blob
  url :: object_url
  thumbnail :: "data_url option"

datatype exn = Exn (message: string)

text \<open>
  The state of one \<open>useRecorder\<close> instance: the four \<open>useState\<close> cells, the refs,
  the variables that the closures of \<open>startRecording\<close> capture (\<open>ctx\<close>,
  \<open>screenStream\<close>, \<open>userStream\<close>), the count of animation-frame handles the browser has
  issued, and the calls made to the \<open>onStop\<close> prop.
\<close>

record hook =
  isRecording :: bool
  isPaused :: bool
  elapsedTime :: nat
  error :: "string option"
  canvasRef :: "canvas option"
  screenVideoRef :: "video option"
  cameraVideoRef :: "video option"
  mediaRecorderRef :: "media_recorder option"
  animationFrameRef :: "nat option"
  streamRef :: "media_stream option"
  chunksRef :: "blob list"
  audioContextRef :: "audio_context option"
  configRef :: camera_config
  ctx :: "ctx2d option"
  screenStream :: "media_stream option"
  userStream :: "media_stream option"
  frameRequests :: nat
  onStopCalls :: "recording_data list"

text \<open>Lines 21-37: the initial values.\<close>

definition initial :: "camera_config \<Rightarrow> hook" where
  "initial cfg =
     \<lparr>isRecording = False, isPaused = False, elapsedTime = 0, error = None,
      canvasRef = None, screenVideoRef = None, cameraVideoRef = None,
      mediaRecorderRef = None, animationFrameRef = None, streamRef = None,
      chunksRef = [], audioContextRef = None, configRef = cfg,
      ctx = None, screenStream = None, userStream = None,
      frameRequests = 0, onStopCalls = []\<rparr>"

text \<open>App.tsx: \<open>DEFAULT_CAMERA_CONFIG\<close>.\<close>

definition DEFAULT_CAMERA_CONFIG :: camera_config where
  "DEFAULT_CAMERA_CONFIG =
     \<lparr>size_cam = 0.2, borderColor = ''#6366f1'', borderWidth = 8, shape = circle,
      position = \<lparr>pos_x = 0.05, pos_y = 0.7\<rparr>\<rparr>"

text \<open>React stores the mounted \<open><canvas ref={canvasRef}>\<close> of the overlay in the ref.\<close>

definition mountCanvas :: "canvas \<Rightarrow> hook \<Rightarrow> hook" where
  "mountCanvas cv s = s\<lparr>canvasRef := Some cv\<rparr>"

text \<open>Lines 38-40: the effect that copies the \<open>cameraConfig\<close> prop into \<open>configRef\<close>.\<close>

definition configChanged :: "camera_config \<Rightarrow> hook \<Rightarrow> hook" where
  "configChanged cfg s = s\<lparr>configRef := cfg\<rparr>"

text \<open>
  Lines 43-51: the interval exists only while \<open>isRecording && !isPaused\<close>; one
  firing of it adds a second.
\<close>

definition timerTick :: "hook \<Rightarrow> hook" where
  "timerTick s =
     (if isRecording s \<and> \<not> isPaused s then s\<lparr>elapsedTime := elapsedTime s + 1\<rparr> else s)"

definition requestAnimationFrame :: "hook \<Rightarrow> hook" where
  "requestAnimationFrame s =
     s\<lparr>frameRequests := Suc (frameRequests s),
       animationFrameRef := Some (Suc (frameRequests s))\<rparr>"

text \<open>
  Lines 121-211. \<open>canvas\<close> is the element that \<open>canvasRef\<close> held when the session
  started; it is not null once line 113 has passed.
\<close>

definition draw :: "hook \<Rightarrow> hook" where
  "draw s =
     (case ctx s of None \<Rightarrow> s | Some c \<Rightarrow>
     (case screenVideoRef s of None \<Rightarrow> s | Some sv \<Rightarrow>
     (case cameraVideoRef s of None \<Rightarrow> s | Some cam \<Rightarrow>
     (case canvasRef s of None \<Rightarrow> s | Some cv \<Rightarrow>
        requestAnimationFrame
          (s\<lparr>canvasRef :=
               Some (cv\<lparr>content := content cv @ drawOps c cv sv cam (configRef s)\<rparr>)\<rparr>)))))"

text \<open>
  Lines 291-316. Only the tracks of \<open>streamRef.current\<close> are stopped; the handle in
  \<open>animationFrameRef\<close> is tested for truthiness.
\<close>

definition cleanup :: "hook \<Rightarrow> hook" where
  "cleanup s =
     s\<lparr>screenVideoRef := None,
       cameraVideoRef := None,
       streamRef := map_option (\<lambda>st. st\<lparr>tracksStopped := True\<rparr>) (streamRef s),
       audioContextRef := None,
       animationFrameRef :=
         (case animationFrameRef s of None \<Rightarrow> None
          | Some n \<Rightarrow> if n \<noteq> 0 then None else Some n)\<rparr>"

text \<open>Lines 253-255.\<close>

definition ondataavailable :: "blob \<Rightarrow> hook \<Rightarrow> hook" where
  "ondataavailable e s =
     (if blob_size e > 0 then s\<lparr>chunksRef := chunksRef s @ [e]\<rparr> else s)"

definition toDataURL :: "canvas \<Rightarrow> string \<Rightarrow> data_url" where
  "toDataURL cv ty = DataURL ty (content cv)"

text \<open>
  Lines 257-265, the handler of the recorder's \<open>stop\<close> event; it exists once a
  recorder has been created, and \<open>mimeType\<close> is the one the recorder was created with.
\<close>

definition recorder_onstop :: "hook \<Rightarrow> hook" where
  "recorder_onstop s =
     (case mediaRecorderRef s of None \<Rightarrow> s | Some r \<Rightarrow>
     (let s1 = cleanup s in
     (case canvasRef s1 of None \<Rightarrow> s1 | Some cv \<Rightarrow>
        (let b = new_Blob (chunksRef s1) (mimeType r) in
         s1\<lparr>onStopCalls := onStopCalls s1 @
               [\<lparr>blob = b, url = ObjectURL b,
                 thumbnail = Some (toDataURL cv ''image/png'')\<rparr>]\<rparr>))))"

text \<open>Lines 279-289. \<open>pause()\<close> and \<open>resume()\<close> set the recorder's state.\<close>

definition togglePause :: "hook \<Rightarrow> hook" where
  "togglePause s =
     (case mediaRecorderRef s of None \<Rightarrow> s | Some r \<Rightarrow>
      if rstate r = inactive then s
      else if rstate r = recording then
        s\<lparr>mediaRecorderRef := Some (r\<lparr>rstate := paused\<rparr>), isPaused := True\<rparr>
      else if rstate r = paused then
        s\<lparr>mediaRecorderRef := Some (r\<lparr>rstate := recording\<rparr>), isPaused := False\<rparr>
      else s)"

text \<open>
  Lines 318-324. \<open>stop()\<close> makes the recorder inactive at once; the browser then fires
  \<open>dataavailable\<close> with the data gathered so far, and \<open>stop\<close>.
\<close>

definition stopRecording :: "hook \<Rightarrow> hook" where
  "stopRecording s =
     (case mediaRecorderRef s of None \<Rightarrow> s | Some r \<Rightarrow>
      if rstate r \<noteq> inactive then
        s\<lparr>mediaRecorderRef := Some (r\<lparr>rstate := inactive\<rparr>),
          isRecording := False, isPaused := False\<rparr>
      else s)"

text \<open>Lines 85-87: the \<open>onended\<close> handler of the screen track.\<close>

definition screen_onended :: "hook \<Rightarrow> hook" where
  "screen_onended s = stopRecording s"

subsection \<open>startRecording\<close>

text \<open>Lines 10-18.\<close>

definition mime_types :: "string list" where
  "mime_types =
     [''video/webm;codecs=vp9,opus'', ''video/webm;codecs=vp8,opus'', ''video/webm'',
      ''video/mp4'']"

definition getSupportedMimeType :: "(string \<Rightarrow> bool) \<Rightarrow> string" where
  "getSupportedMimeType isTypeSupported =
     (case find isTypeSupported mime_types of Some t \<Rightarrow> t | None \<Rightarrow> [])"

text \<open>
  What the browser answers during one \<open>startRecording\<close>: the results of the awaited
  promises (\<open>Inl\<close> is a rejection), the state of the two video elements once they
  play, the 2D context, and \<open>MediaRecorder.isTypeSupported\<close>.
\<close>

record start_env =
  displayMedia :: "exn + media_stream"
  userMedia :: "exn + media_stream"
  played :: "exn + video \<times> video"
  context2d :: "ctx2d option"
  audioSuspended :: bool
  audioResume :: "exn option"
  isTypeSupported :: "string \<Rightarrow> bool"

definition new_video :: video where
  "new_video = \<lparr>readyState = 0, videoWidth = 0, videoHeight = 0\<rparr>"

text \<open>Lines 54-73, up to the first \<open>await\<close>.\<close>

definition start_sync :: "hook \<Rightarrow> hook" where
  "start_sync s =
     s\<lparr>error := None, elapsedTime := 0, chunksRef := [], isPaused := False,
       screenVideoRef := Some new_video, cameraVideoRef := Some new_video\<rparr>"

text \<open>Lines 271-276: the \<open>catch\<close> block, which rethrows.\<close>

definition start_catch :: "exn \<Rightarrow> hook \<Rightarrow> (exn + unit) \<times> hook" where
  "start_catch err s =
     (Inl err,
      (cleanup s)\<lparr>error :=
         Some (if message err = [] then ''Failed to start recording'' else message err)\<rparr>)"

text \<open>Lines 76-87: the screen stream is open and its \<open>onended\<close> handler is set.\<close>

definition start_gotScreen :: "media_stream \<Rightarrow> hook \<Rightarrow> hook" where
  "start_gotScreen scr s = s\<lparr>screenStream := Some scr\<rparr>"

text \<open>Lines 90-104.\<close>

definition start_gotUser :: "media_stream \<Rightarrow> hook \<Rightarrow> hook" where
  "start_gotUser usr s = s\<lparr>userStream := Some usr\<rparr>"

text \<open>Lines 106-109: both elements play.\<close>

definition start_playing :: "video \<times> video \<Rightarrow> hook \<Rightarrow> hook" where
  "start_playing vids s = s\<lparr>screenVideoRef := Some (fst vids), cameraVideoRef := Some (snd vids)\<rparr>"

text \<open>\<open>n || d\<close> for an optional number.\<close>

definition or_default :: "nat option \<Rightarrow> nat \<Rightarrow> nat" where
  "or_default n d = (case n of None \<Rightarrow> d | Some k \<Rightarrow> if k = 0 then d else k)"

text \<open>Lines 115-119: sizing the canvas resets its bitmap.\<close>

definition start_canvas :: "media_stream \<Rightarrow> ctx2d option \<Rightarrow> hook \<Rightarrow> hook" where
  "start_canvas scr c s =
     s\<lparr>canvasRef :=
         Some \<lparr>cwidth = or_default (settingsWidth scr) 1920,
               cheight = or_default (settingsHeight scr) 1080,
               content = []\<rparr>,
       ctx := c\<rparr>"

text \<open>Lines 216-218.\<close>

definition start_audio :: "hook \<Rightarrow> hook" where
  "start_audio s = s\<lparr>audioContextRef := Some \<lparr>micConnected = False, sysConnected = False\<rparr>\<rparr>"

text \<open>Lines 224-243: the mixer graph and the combined stream.\<close>

definition start_mix :: "media_stream \<Rightarrow> media_stream \<Rightarrow> hook \<Rightarrow> hook" where
  "start_mix scr usr s =
     s\<lparr>audioContextRef :=
         map_option (\<lambda>a. a\<lparr>micConnected := audioTracks usr > 0,
                           sysConnected := audioTracks scr > 0\<rparr>) (audioContextRef s),
       streamRef :=
         Some \<lparr>audioTracks = 1, settingsWidth = None, settingsHeight = None,
               tracksStopped = False\<rparr>\<rparr>"

text \<open>Lines 248-269.\<close>

definition start_record :: "string \<Rightarrow> hook \<Rightarrow> hook" where
  "start_record mt s =
     s\<lparr>mediaRecorderRef := Some \<lparr>rstate = recording, mimeType = mt\<rparr>, isRecording := True\<rparr>"

definition startRecording :: "start_env \<Rightarrow> hook \<Rightarrow> (exn + unit) \<times> hook" where
  "startRecording env s =
     (let s1 = start_sync s in
     (case displayMedia env of Inl e \<Rightarrow> start_catch e s1 | Inr scr \<Rightarrow>
     (let s2 = start_gotScreen scr s1 in
     (case userMedia env of Inl e \<Rightarrow> start_catch e s2 | Inr usr \<Rightarrow>
     (let s3 = start_gotUser usr s2 in
     (case played env of Inl e \<Rightarrow> start_catch e s3 | Inr vids \<Rightarrow>
     (let s4 = start_playing vids s3 in
     (case canvasRef s4 of None \<Rightarrow> start_catch (Exn ''Canvas not initialized'') s4
      | Some cv \<Rightarrow>
     (let s5 = start_audio (draw (start_canvas scr (context2d env) s4)) in
     (case (if audioSuspended env then audioResume env else None) of
        Some e \<Rightarrow> start_catch e s5
      | None \<Rightarrow>
     (let s6 = start_mix scr usr s5;
          mt = getSupportedMimeType (isTypeSupported env) in
      if mt = [] then start_catch (Exn ''No supported video MIME type found'') s6
      else (Inr (), start_record mt s6))))))))))))"

subsection \<open>Events\<close>

text \<open>
  Everything that can happen to the hook: calls of its three operations by the caller,
  and callbacks from the browser. \<open>Start\<close> is one whole \<open>startRecording\<close>, from the
  call to the settling of its promise; the states between its \<open>await\<close>s are those of
  the functions \<open>start_sync\<close>, \<open>start_gotScreen\<close> and so on. A video element
  changes its state on its own (\<open>MediaProgress\<close>); an animation frame runs \<open>draw\<close>
  unless the handle was cancelled; \<open>DataAvailable\<close> and \<open>RecorderStop\<close> are the
  recorder's \<open>dataavailable\<close> and \<open>stop\<close> events, in the order the browser fires
  them.
\<close>

datatype event =
    Start start_env
  | TogglePause
  | StopRecording
  | ScreenEnded
  | TimerTick
  | AnimationFrame
  | MediaProgress image_source video
  | ConfigChanged camera_config
  | DataAvailable blob
  | RecorderStop

definition mediaProgress :: "image_source \<Rightarrow> video \<Rightarrow> hook \<Rightarrow> hook" where
  "mediaProgress src v s =
     (case src of
        ScreenVideo \<Rightarrow> s\<lparr>screenVideoRef := map_option (\<lambda>_. v) (screenVideoRef s)\<rparr>
      | CameraVideo \<Rightarrow> s\<lparr>cameraVideoRef := map_option (\<lambda>_. v) (cameraVideoRef s)\<rparr>)"

fun handle :: "event \<Rightarrow> hook \<Rightarrow> hook" where
  "handle (Start env) s = snd (startRecording env s)"
| "handle TogglePause s = togglePause s"
| "handle StopRecording s = stopRecording s"
| "handle ScreenEnded s = screen_onended s"
| "handle TimerTick s = timerTick s"
| "handle AnimationFrame s = (if animationFrameRef s \<noteq> None then draw s else s)"
| "handle (MediaProgress src v) s = mediaProgress src v s"
| "handle (ConfigChanged cfg) s = configChanged cfg s"
| "handle (DataAvailable b) s = ondataavailable b s"
| "handle RecorderStop s = recorder_onstop s"

fun run :: "event list \<Rightarrow> hook \<Rightarrow> hook" where
  "run [] s = s"
| "run (e # es) s = run es (handle e s)"

text \<open>The blobs that the encoder delivered since the most recent \<open>Start\<close>.\<close>

fun isStart :: "event \<Rightarrow> bool" where
  "isStart (Start env) = True"
| "isStart _ = False"

fun deliveredSinceStart :: "event list \<Rightarrow> blob list" where
  "deliveredSinceStart [] = []"
| "deliveredSinceStart (e # es) =
     (if list_ex isStart es then deliveredSinceStart es
      else (case e of DataAvailable b \<Rightarrow> b # deliveredSinceStart es
            | _ \<Rightarrow> deliveredSinceStart es))"

text \<open>What the canvas holds: the calls made on it, or nothing without a canvas.\<close>

definition frameBuffer :: "hook \<Rightarrow> canvas_op list" where
  "frameBuffer s = (case canvasRef s of None \<Rightarrow> [] | Some cv \<Rightarrow> content cv)"

subsection \<open>A concrete session\<close>

text \<open>
  A browser that grants a 1920 by 1080 screen and a 640 by 480 camera, both with
  audio, and supports plain WebM only; the hook of an application that has mounted the
  overlay's canvas (300 by 150 is the size of a fresh canvas element).
\<close>

definition example_screen :: media_stream where
  "example_screen =
     \<lparr>audioTracks = 1, settingsWidth = Some 1920, settingsHeight = Some 1080,
      tracksStopped = False\<rparr>"

definition example_camera :: media_stream where
  "example_camera =
     \<lparr>audioTracks = 1, settingsWidth = Some 640, settingsHeight = Some 480,
      tracksStopped = False\<rparr>"

definition example_env :: start_env where
  "example_env =
     \<lparr>displayMedia = Inr example_screen, userMedia = Inr example_camera,
      played = Inr (\<lparr>readyState = 4, videoWidth = 1920, videoHeight = 1080\<rparr>,
                    \<lparr>readyState = 4, videoWidth = 640, videoHeight = 480\<rparr>),
      context2d = Some \<lparr>has_roundRect = True\<rparr>,
      audioSuspended = False, audioResume = None,
      isTypeSupported = (\<lambda>t. t = ''video/webm'')\<rparr>"

text \<open>The same browser without any of the four container formats.\<close>

definition example_env_unsupported :: start_env where
  "example_env_unsupported = example_env\<lparr>isTypeSupported := (\<lambda>t. False)\<rparr>"

definition example_idle :: hook where
  "example_idle =
     mountCanvas \<lparr>cwidth = 300, cheight = 150, content = []\<rparr> (initial DEFAULT_CAMERA_CONFIG)"

definition example_recording :: hook where
  "example_recording = snd (startRecording example_env example_idle)"

section \<open>The interactive overlay (RecordingOverlay.tsx)\<close>

record bounds =
  bwidth :: real
  bheight :: real

record dragging =
  startX :: real
  startY :: real
  initialX :: real
  initialY :: real

record resizing =
  resizeStartY :: real
  initialSize :: real

record pointer =
  clientX :: real
  clientY :: real

text \<open>
  The props and state of the component that the pointer handlers read:
  \<open>cameraConfig\<close> is the prop, which the parent replaces by whatever
  \<open>onUpdateConfig\<close> was last called with.
\<close>

record overlay =
  cameraConfig :: camera_config
  containerBounds :: bounds
  draggingRef :: "dragging option"
  resizingRef :: "resizing option"
  isSettingsOpen :: bool

text \<open>\<open>x || 100\<close> for a number.\<close>

definition or100 :: "real \<Rightarrow> real" where
  "or100 x = (if x = 0 then 100 else x)"

text \<open>Lines 81-82.\<close>

definition cameraPixelSize :: "overlay \<Rightarrow> real" where
  "cameraPixelSize ov =
     min (or100 (bwidth (containerBounds ov))) (or100 (bheight (containerBounds ov)))
       * size_cam (cameraConfig ov)"

text \<open>Lines 85-94.\<close>

definition handlePointerDown :: "pointer \<Rightarrow> overlay \<Rightarrow> overlay" where
  "handlePointerDown e ov =
     (if isSettingsOpen ov then ov
      else ov\<lparr>draggingRef :=
                Some \<lparr>startX = clientX e, startY = clientY e,
                      initialX = pos_x (position (cameraConfig ov)),
                      initialY = pos_y (position (cameraConfig ov))\<rparr>\<rparr>)"

text \<open>Lines 96-103.\<close>

definition handleResizePointerDown :: "pointer \<Rightarrow> overlay \<Rightarrow> overlay" where
  "handleResizePointerDown e ov =
     ov\<lparr>resizingRef :=
          Some \<lparr>resizeStartY = clientY e, initialSize = size_cam (cameraConfig ov)\<rparr>\<rparr>"

text \<open>
  Lines 107-124: the configuration that a drag passes to \<open>onUpdateConfig\<close>. The
  source tests the width of the container only; the quotients by the height are those
  of the reals and agree with the JavaScript ones for a positive height.
\<close>

definition dragUpdate :: "pointer \<Rightarrow> overlay \<Rightarrow> camera_config list" where
  "dragUpdate e ov =
     (case draggingRef ov of None \<Rightarrow> [] | Some d \<Rightarrow>
      if bwidth (containerBounds ov) > 0 then
        (let deltaX = (clientX e - startX d) / bwidth (containerBounds ov);
             deltaY = (clientY e - startY d) / bheight (containerBounds ov);
             boxWidthPct = cameraPixelSize ov / bwidth (containerBounds ov);
             boxHeightPct = cameraPixelSize ov / bheight (containerBounds ov);
             newX = max 0 (min (1 - boxWidthPct) (initialX d + deltaX));
             newY = max 0 (min (1 - boxHeightPct) (initialY d + deltaY))
         in [(cameraConfig ov)\<lparr>position := \<lparr>pos_x = newX, pos_y = newY\<rparr>\<rparr>])
      else [])"

text \<open>Lines 126-136: the configuration that a resize passes to \<open>onUpdateConfig\<close>.\<close>

definition resizeUpdate :: "pointer \<Rightarrow> overlay \<Rightarrow> camera_config list" where
  "resizeUpdate e ov =
     (case resizingRef ov of None \<Rightarrow> [] | Some r \<Rightarrow>
      if bheight (containerBounds ov) > 0 then
        (let delta = (clientY e - resizeStartY r) / bheight (containerBounds ov);
             newSize = max 0.1 (min 0.5 (initialSize r + delta))
         in [(cameraConfig ov)\<lparr>size_cam := newSize\<rparr>])
      else [])"

text \<open>
  Lines 106-137. Both branches spread the same \<open>cameraConfig\<close> prop; the parent's
  state is the argument of the last \<open>onUpdateConfig\<close> call.
\<close>

definition handlePointerMove :: "pointer \<Rightarrow> overlay \<Rightarrow> overlay" where
  "handlePointerMove e ov =
     (case dragUpdate e ov @ resizeUpdate e ov of
        [] \<Rightarrow> ov
      | calls \<Rightarrow> ov\<lparr>cameraConfig := last calls\<rparr>)"

text \<open>Lines 139-142.\<close>

definition handlePointerUp :: "overlay \<Rightarrow> overlay" where
  "handlePointerUp ov = ov\<lparr>draggingRef := None, resizingRef := None\<rparr>"

text \<open>The overlay with the default configuration in a container of 1600 by 900.\<close>

definition example_overlay :: overlay where
  "example_overlay =
     \<lparr>cameraConfig = DEFAULT_CAMERA_CONFIG,
      containerBounds = \<lparr>bwidth = 1600, bheight = 900\<rparr>,
      draggingRef = None, resizingRef = None, isSettingsOpen = False\<rparr>"

text \<open>
  The overlay box of a configuration in a frame of the given size lies inside the
  frame: the bounds that the spec gives for \<open>position\<close>.
\<close>

definition boxInFrame :: "camera_config \<Rightarrow> real \<Rightarrow> real \<Rightarrow> bool" where
  "boxInFrame cfg w h =
     (let px = min w h * size_cam cfg in
      0 \<le> pos_x (position cfg) \<and> pos_x (position cfg) \<le> 1 - px / w \<and>
      0 \<le> pos_y (position cfg) \<and> pos_y (position cfg) \<le> 1 - px / h)"

section \<open>Unfolding rules and the concrete session\<close>

lemmas start_defs =
  startRecording_def start_sync_def start_gotScreen_def start_gotUser_def start_playing_def
  start_canvas_def start_audio_def start_mix_def start_record_def start_catch_def
  getSupportedMimeType_def mime_types_def or_default_def new_video_def

lemmas draw_defs =
  draw_def requestAnimationFrame_def drawOps_def screenOps_def cameraOps_def pathOps_def
  radius_def cameraImageOps_def borderOps_def coverFit_def

lemmas example_defs =
  example_env_def example_idle_def example_screen_def example_camera_def mountCanvas_def
  initial_def DEFAULT_CAMERA_CONFIG_def

lemma example_recording_eq:
  "example_recording =
    \<lparr>isRecording = True, isPaused = False, elapsedTime = 0, error = None,
     canvasRef =
       Some \<lparr>cwidth = 1920, cheight = 1080,
          content =
            [DrawImage ScreenVideo 0 0 1920 1080, Save, BeginPath,
             Arc 204 864 108 (Rad 0) (PiTimes 2), ClosePath,
             ShadowColor ''rgba(0, 0, 0, 0.5)'', ShadowBlur 20,
             ShadowOffsetX 0, ShadowOffsetY 4, Clip,
             ShadowColor ''transparent'',
             DrawImage CameraVideo 60 756 288 216, StrokeStyle ''#6366f1'',
             LineWidth 16, Stroke, Restore]\<rparr>,
     screenVideoRef = Some \<lparr>readyState = 4, videoWidth = 1920, videoHeight = 1080\<rparr>,
     cameraVideoRef = Some \<lparr>readyState = 4, videoWidth = 640, videoHeight = 480\<rparr>,
     mediaRecorderRef = Some \<lparr>rstate = recording, mimeType = ''video/webm''\<rparr>,
     animationFrameRef = Some 1,
     streamRef =
       Some \<lparr>audioTracks = 1, settingsWidth = None, settingsHeight = None,
          tracksStopped = False\<rparr>,
     chunksRef = [],
     audioContextRef = Some \<lparr>micConnected = True, sysConnected = True\<rparr>,
     configRef = DEFAULT_CAMERA_CONFIG,
     ctx = Some \<lparr>has_roundRect = True\<rparr>,
     screenStream = Some example_screen,
     userStream = Some example_camera,
     frameRequests = 1, onStopCalls = []\<rparr>"
  by (simp add: example_recording_def start_defs draw_defs example_defs Let_def)

section \<open>Cover fit\<close>

lemma coverFit_landscape:
  "vw / vh > 1 \<Longrightarrow> coverFit vw vh b =
     \<lparr>offX = - (b * (vw / vh) - b) / 2, offY = 0, drawW = b * (vw / vh), drawH = b\<rparr>"
  by (simp add: coverFit_def Let_def)

lemma coverFit_portrait:
  "\<not> vw / vh > 1 \<Longrightarrow> coverFit vw vh b =
     \<lparr>offX = 0, offY = - (b / (vw / vh) - b) / 2, drawW = b, drawH = b / (vw / vh)\<rparr>"
  by (simp add: coverFit_def Let_def)

lemma coverFit_dims_ge:
  assumes "0 < vw" "0 < vh" "0 \<le> b"
  shows "b \<le> drawW (coverFit vw vh b) \<and> b \<le> drawH (coverFit vw vh b)"
proof (cases "vw / vh > 1")
  case True
  then have "b * 1 \<le> b * (vw / vh)" using assms(3) by (intro mult_left_mono) auto
  then show ?thesis using True by (simp add: coverFit_landscape)
next
  case False
  have pos: "0 < vw / vh" using assms by simp
  have "vw / vh \<le> 1" using False by simp
  then have "b * (vw / vh) \<le> b * 1" using assms(3) by (intro mult_left_mono) auto
  then have "b \<le> b / (vw / vh)" using pos_le_divide_eq[OF pos, of b b] by simp
  then show ?thesis using False by (simp add: coverFit_portrait)
qed

lemma coverFit_centred:
  "offX (coverFit vw vh b) + drawW (coverFit vw vh b) / 2 = b / 2 \<and>
   offY (coverFit vw vh b) + drawH (coverFit vw vh b) / 2 = b / 2"
  by (cases "vw / vh > 1") (simp_all add: coverFit_landscape coverFit_portrait field_simps)

lemma coverFit_again:
  assumes "0 < vw" "0 < vh" "0 < b"
  shows "coverFit (drawW (coverFit vw vh b)) (drawH (coverFit vw vh b)) b = coverFit vw vh b"
proof (cases "vw / vh > 1")
  case True
  have "b * (vw / vh) / b = vw / vh" using assms by simp
  then show ?thesis using True by (simp add: coverFit_landscape)
next
  case False
  have "b / (b / (vw / vh)) = vw / vh" using assms by simp
  then show ?thesis using False by (simp add: coverFit_portrait)
qed

lemma coverFit_scale:
  assumes "0 < k"
  shows "coverFit (k * vw) (k * vh) b = coverFit vw vh b"
proof -
  have "k * vw / (k * vh) = vw / vh" using assms by simp
  then show ?thesis by (simp add: coverFit_def)
qed

text \<open>
  Claim C7. For a camera picture of positive width and height and a box size that is
  not negative, the drawn width and height are both at least the box size. A landscape
  source (aspect ratio above 1) gets width \<open>box * aspect\<close> and X offset
  \<open>-(drawW - box) / 2\<close>, with the height and the Y offset untouched; any other source
  gets height \<open>box / aspect\<close> and the Y offset \<open>-(drawH - box) / 2\<close>. In both axes
  the middle of the drawn picture is the middle of the box. The result depends on the
  aspect ratio only: fitting the drawn rectangle again into the same (positive) box
  gives the same result, and so does a source scaled by any positive factor.
\<close>

theorem coverFit_covers:
  assumes "0 < vw" and "0 < vh" and "0 \<le> box"
  shows "box \<le> drawW (coverFit vw vh box) \<and> box \<le> drawH (coverFit vw vh box) \<and>
    (vw / vh > 1 \<longrightarrow>
       drawW (coverFit vw vh box) = box * (vw / vh) \<and>
       offX (coverFit vw vh box) = - (drawW (coverFit vw vh box) - box) / 2 \<and>
       drawH (coverFit vw vh box) = box \<and> offY (coverFit vw vh box) = 0) \<and>
    (\<not> vw / vh > 1 \<longrightarrow>
       drawH (coverFit vw vh box) = box / (vw / vh) \<and>
       offY (coverFit vw vh box) = - (drawH (coverFit vw vh box) - box) / 2 \<and>
       drawW (coverFit vw vh box) = box \<and> offX (coverFit vw vh box) = 0) \<and>
    offX (coverFit vw vh box) + drawW (coverFit vw vh box) / 2 = box / 2 \<and>
    offY (coverFit vw vh box) + drawH (coverFit vw vh box) / 2 = box / 2 \<and>
    (0 < box \<longrightarrow>
       coverFit (drawW (coverFit vw vh box)) (drawH (coverFit vw vh box)) box
         = coverFit vw vh box) \<and>
    (\<forall>k>0. coverFit (k * vw) (k * vh) box = coverFit vw vh box)"
  using coverFit_dims_ge[OF assms] coverFit_centred[of vw vh box]
    coverFit_again[OF assms(1,2)] coverFit_scale[of _ vw vh box]
  by (simp add: coverFit_landscape coverFit_portrait)

theorem coverFit_covers_witness:
  "(0::real) < 640 \<and> (0::real) < 480 \<and> (0::real) \<le> 216 \<and>
   drawW (coverFit 640 480 216) = 288 \<and> drawH (coverFit 640 480 216) = 216 \<and>
   offX (coverFit 640 480 216) = - 36 \<and> offY (coverFit 640 480 216) = 0 \<and>
   coverFit 288 216 216 = coverFit 640 480 216 \<and>
   coverFit 1280 960 216 = coverFit 640 480 216"
  using coverFit_covers[of 640 480 216]
  by (simp add: coverFit_def)

section \<open>The compositor tick\<close>

lemma draw_live:
  assumes "ctx s = Some c" "canvasRef s = Some cv" "screenVideoRef s = Some sv"
    "cameraVideoRef s = Some cam"
  shows "draw s = requestAnimationFrame
          (s\<lparr>canvasRef :=
               Some (cv\<lparr>content := content cv @ drawOps c cv sv cam (configRef s)\<rparr>)\<rparr>)"
  using assms by (simp add: draw_def)

lemma frameBuffer_draw:
  assumes "ctx s = Some c" "canvasRef s = Some cv" "screenVideoRef s = Some sv"
    "cameraVideoRef s = Some cam"
  shows "frameBuffer (draw s) = frameBuffer s @ drawOps c cv sv cam (configRef s)"
  using assms by (simp add: draw_live[OF assms] frameBuffer_def requestAnimationFrame_def)

lemma draw_not_live:
  "ctx s = None \<or> screenVideoRef s = None \<or> cameraVideoRef s = None \<Longrightarrow> draw s = s"
  by (auto simp: draw_def split: option.splits)

text \<open>
  Claim C5. On a tick that passes the guard of line 122 (the context, the canvas and
  both video elements exist), the canvas receives first the screen picture over the whole
  frame when the screen element has a decodable frame (\<open>readyState\<close> at least 2), and
  otherwise a black fill of the whole frame; then the overlay calls. When the camera
  element has no decodable frame the overlay calls are none at all, so the tick draws
  the screen part only. The tick requests the next frame.
\<close>

theorem tick_draws_screen_then_overlay:
  assumes "ctx s = Some c" and "canvasRef s = Some cv" and "screenVideoRef s = Some sv"
    and "cameraVideoRef s = Some cam"
  shows "frameBuffer (draw s) =
      frameBuffer s @
      (if readyState sv \<ge> 2
       then [DrawImage ScreenVideo 0 0 (real (cwidth cv)) (real (cheight cv))]
       else [FillStyle ''#000'', FillRect 0 0 (real (cwidth cv)) (real (cheight cv))]) @
      cameraOps c cv cam (configRef s)
    \<and> (readyState cam < 2 \<longrightarrow> cameraOps c cv cam (configRef s) = [])
    \<and> animationFrameRef (draw s) \<noteq> None"
proof -
  have fb: "frameBuffer (draw s) = frameBuffer s @ drawOps c cv sv cam (configRef s)"
    by (rule frameBuffer_draw[OF assms])
  have ops: "drawOps c cv sv cam (configRef s) =
      (if readyState sv \<ge> 2
       then [DrawImage ScreenVideo 0 0 (real (cwidth cv)) (real (cheight cv))]
       else [FillStyle ''#000'', FillRect 0 0 (real (cwidth cv)) (real (cheight cv))]) @
      cameraOps c cv cam (configRef s)"
    by (simp add: drawOps_def screenOps_def)
  have skip: "readyState cam < 2 \<longrightarrow> cameraOps c cv cam (configRef s) = []"
    by (simp add: cameraOps_def)
  have next_frame: "animationFrameRef (draw s) \<noteq> None"
    by (simp add: draw_live[OF assms] requestAnimationFrame_def)
  show ?thesis
    unfolding fb ops using skip next_frame by blast
qed

theorem tick_draws_screen_then_overlay_witness:
  "ctx example_recording = Some \<lparr>has_roundRect = True\<rparr> \<and>
   frameBuffer (draw (mediaProgress CameraVideo new_video example_recording)) =
     frameBuffer example_recording @ [DrawImage ScreenVideo 0 0 1920 1080] \<and>
   frameBuffer (draw (mediaProgress CameraVideo new_video
       (mediaProgress ScreenVideo new_video example_recording))) =
     frameBuffer example_recording @ [FillStyle ''#000'', FillRect 0 0 1920 1080]"
  using tick_draws_screen_then_overlay[of "mediaProgress CameraVideo new_video example_recording"
      "\<lparr>has_roundRect = True\<rparr>"
      "\<lparr>cwidth = 1920, cheight = 1080, content = frameBuffer example_recording\<rparr>"
      "\<lparr>readyState = 4, videoWidth = 1920, videoHeight = 1080\<rparr>" new_video]
    tick_draws_screen_then_overlay[of "mediaProgress CameraVideo new_video
       (mediaProgress ScreenVideo new_video example_recording)"
      "\<lparr>has_roundRect = True\<rparr>"
      "\<lparr>cwidth = 1920, cheight = 1080, content = frameBuffer example_recording\<rparr>"
      new_video new_video]
  by (simp add: example_recording_eq mediaProgress_def frameBuffer_def new_video_def cameraOps_def)


section \<open>Overlay geometry\<close>

lemma take4_cameraOps:
  assumes "readyState cam \<ge> 2"
  shows "take 4 (cameraOps c cv cam cfg) =
     [Save, BeginPath] @
     pathOps c (shape cfg) (pos_x (position cfg) * real (cwidth cv))
       (pos_y (position cfg) * real (cheight cv))
       (min (real (cwidth cv)) (real (cheight cv)) * size_cam cfg) @
     [ClosePath]"
  using assms by (simp add: cameraOps_def pathOps_def Let_def)

lemma radius_linear: "radius sh (k * sz) = k * radius sh sz"
  by (simp add: radius_def)

text \<open>
  Claim C6. On a tick with a decodable camera frame, for every configuration and every
  canvas size: the overlay size is \<open>size * min(width, height)\<close>, its origin is
  \<open>(position.x * width, position.y * height)\<close>, and the clip path that the tick
  draws is, for a circle, a full arc (0 to \<open>2 * Math.PI\<close>) of radius half the size
  around the centre of the box; for a square, a rounded rectangle at the origin with
  that size and corner radius 0.15 times the size; for \<open>rect\<close>, the same with 0.35
  times the size. (A context without \<open>roundRect\<close> gets the plain rectangle of the same
  origin and size.) The camera picture is drawn at the origin plus the cover-fit offsets.
  The corner radius of line 153 is linear in the size.
\<close>

theorem overlay_geometry:
  assumes "ctx s = Some c" and "canvasRef s = Some cv" and "screenVideoRef s = Some sv"
    and "cameraVideoRef s = Some cam" and "readyState cam \<ge> 2"
  shows "(let cfg = configRef s;
              W = real (cwidth cv); H = real (cheight cv);
              sz = size_cam cfg * min W H;
              x = pos_x (position cfg) * W;
              y = pos_y (position cfg) * H
          in frameBuffer (draw s) = frameBuffer s @ screenOps cv sv @ cameraOps c cv cam cfg \<and>
             (shape cfg = circle \<longrightarrow>
                take 4 (cameraOps c cv cam cfg) =
                  [Save, BeginPath, Arc (x + sz / 2) (y + sz / 2) (sz / 2) (Rad 0) (PiTimes 2),
                   ClosePath]) \<and>
             (shape cfg = square \<and> has_roundRect c \<longrightarrow>
                take 4 (cameraOps c cv cam cfg) =
                  [Save, BeginPath, RoundRect x y sz sz (0.15 * sz), ClosePath]) \<and>
             (shape cfg = rect \<and> has_roundRect c \<longrightarrow>
                take 4 (cameraOps c cv cam cfg) =
                  [Save, BeginPath, RoundRect x y sz sz (0.35 * sz), ClosePath]) \<and>
             (shape cfg \<noteq> circle \<and> \<not> has_roundRect c \<longrightarrow>
                take 4 (cameraOps c cv cam cfg) =
                  [Save, BeginPath, RectPath x y sz sz, ClosePath]) \<and>
             (0 < videoWidth cam \<and> 0 < videoHeight cam \<longrightarrow>
                DrawImage CameraVideo
                  (x + offX (coverFit (real (videoWidth cam)) (real (videoHeight cam)) sz))
                  (y + offY (coverFit (real (videoWidth cam)) (real (videoHeight cam)) sz))
                  (drawW (coverFit (real (videoWidth cam)) (real (videoHeight cam)) sz))
                  (drawH (coverFit (real (videoWidth cam)) (real (videoHeight cam)) sz))
                \<in> set (cameraOps c cv cam cfg)) \<and>
             radius square sz = 0.15 * sz \<and> radius rect sz = 0.35 * sz \<and>
             (\<forall>k. radius (shape cfg) (k * sz) = k * radius (shape cfg) sz))"
proof -
  define cfg where "cfg = configRef s"
  define sz where "sz = size_cam cfg * min (real (cwidth cv)) (real (cheight cv))"
  define x where "x = pos_x (position cfg) * real (cwidth cv)"
  define y where "y = pos_y (position cfg) * real (cheight cv)"
  have sz': "min (real (cwidth cv)) (real (cheight cv)) * size_cam cfg = sz"
    by (simp add: sz_def mult.commute)
  have fb: "frameBuffer (draw s) = frameBuffer s @ screenOps cv sv @ cameraOps c cv cam cfg"
    using frameBuffer_draw[OF assms(1-4)] by (simp add: drawOps_def cfg_def)
  have t4: "take 4 (cameraOps c cv cam cfg) =
      [Save, BeginPath] @ pathOps c (shape cfg) x y sz @ [ClosePath]"
    using take4_cameraOps[OF assms(5), of c cv cfg] by (simp only: sz' x_def y_def)
  have p1: "shape cfg = circle \<longrightarrow> pathOps c (shape cfg) x y sz =
      [Arc (x + sz / 2) (y + sz / 2) (sz / 2) (Rad 0) (PiTimes 2)]"
    by (simp add: pathOps_def)
  have p2: "shape cfg = square \<and> has_roundRect c \<longrightarrow>
      pathOps c (shape cfg) x y sz = [RoundRect x y sz sz (0.15 * sz)]"
    by (simp add: pathOps_def radius_def)
  have p3: "shape cfg = rect \<and> has_roundRect c \<longrightarrow>
      pathOps c (shape cfg) x y sz = [RoundRect x y sz sz (0.35 * sz)]"
    by (simp add: pathOps_def radius_def)
  have p4: "shape cfg \<noteq> circle \<and> \<not> has_roundRect c \<longrightarrow>
      pathOps c (shape cfg) x y sz = [RectPath x y sz sz]"
    by (simp add: pathOps_def)
  have img: "0 < videoWidth cam \<and> 0 < videoHeight cam \<longrightarrow>
      DrawImage CameraVideo
        (x + offX (coverFit (real (videoWidth cam)) (real (videoHeight cam)) sz))
        (y + offY (coverFit (real (videoWidth cam)) (real (videoHeight cam)) sz))
        (drawW (coverFit (real (videoWidth cam)) (real (videoHeight cam)) sz))
        (drawH (coverFit (real (videoWidth cam)) (real (videoHeight cam)) sz))
      \<in> set (cameraOps c cv cam cfg)"
    using assms(5)
    by (simp add: cameraOps_def cameraImageOps_def Let_def sz' x_def[symmetric] y_def[symmetric])
  have r: "radius square sz = 0.15 * sz \<and> radius rect sz = 0.35 * sz"
    by (simp add: radius_def)
  have lin: "\<forall>k. radius (shape cfg) (k * sz) = k * radius (shape cfg) sz"
    by (simp add: radius_linear)
  have "frameBuffer (draw s) = frameBuffer s @ screenOps cv sv @ cameraOps c cv cam cfg \<and>
     (shape cfg = circle \<longrightarrow>
        take 4 (cameraOps c cv cam cfg) =
          [Save, BeginPath, Arc (x + sz / 2) (y + sz / 2) (sz / 2) (Rad 0) (PiTimes 2),
           ClosePath]) \<and>
     (shape cfg = square \<and> has_roundRect c \<longrightarrow>
        take 4 (cameraOps c cv cam cfg) =
          [Save, BeginPath, RoundRect x y sz sz (0.15 * sz), ClosePath]) \<and>
     (shape cfg = rect \<and> has_roundRect c \<longrightarrow>
        take 4 (cameraOps c cv cam cfg) =
          [Save, BeginPath, RoundRect x y sz sz (0.35 * sz), ClosePath]) \<and>
     (shape cfg \<noteq> circle \<and> \<not> has_roundRect c \<longrightarrow>
        take 4 (cameraOps c cv cam cfg) =
          [Save, BeginPath, RectPath x y sz sz, ClosePath]) \<and>
     (0 < videoWidth cam \<and> 0 < videoHeight cam \<longrightarrow>
        DrawImage CameraVideo
          (x + offX (coverFit (real (videoWidth cam)) (real (videoHeight cam)) sz))
          (y + offY (coverFit (real (videoWidth cam)) (real (videoHeight cam)) sz))
          (drawW (coverFit (real (videoWidth cam)) (real (videoHeight cam)) sz))
          (drawH (coverFit (real (videoWidth cam)) (real (videoHeight cam)) sz))
        \<in> set (cameraOps c cv cam cfg)) \<and>
     radius square sz = 0.15 * sz \<and> radius rect sz = 0.35 * sz \<and>
     (\<forall>k. radius (shape cfg) (k * sz) = k * radius (shape cfg) sz)"
    using fb t4 p1 p2 p3 p4 img r lin by simp
  then show ?thesis
    unfolding Let_def cfg_def sz_def x_def y_def .
qed

theorem overlay_geometry_witness:
  "ctx example_recording = Some \<lparr>has_roundRect = True\<rparr> \<and>
   readyState \<lparr>readyState = 4, videoWidth = 640, videoHeight = 480\<rparr> \<ge> 2 \<and>
   take 4 (cameraOps \<lparr>has_roundRect = True\<rparr>
       \<lparr>cwidth = 1920, cheight = 1080, content = frameBuffer example_recording\<rparr>
       \<lparr>readyState = 4, videoWidth = 640, videoHeight = 480\<rparr> DEFAULT_CAMERA_CONFIG) =
     [Save, BeginPath, Arc 204 864 108 (Rad 0) (PiTimes 2), ClosePath] \<and>
   DrawImage CameraVideo 60 756 288 216 \<in> set (cameraOps \<lparr>has_roundRect = True\<rparr>
       \<lparr>cwidth = 1920, cheight = 1080, content = frameBuffer example_recording\<rparr>
       \<lparr>readyState = 4, videoWidth = 640, videoHeight = 480\<rparr> DEFAULT_CAMERA_CONFIG) \<and>
   take 4 (cameraOps \<lparr>has_roundRect = True\<rparr>
       \<lparr>cwidth = 1920, cheight = 1080, content = frameBuffer example_recording\<rparr>
       \<lparr>readyState = 4, videoWidth = 640, videoHeight = 480\<rparr>
       (DEFAULT_CAMERA_CONFIG\<lparr>shape := square\<rparr>)) =
     [Save, BeginPath, RoundRect 96 756 216 216 (162 / 5), ClosePath]"
  using overlay_geometry[of example_recording "\<lparr>has_roundRect = True\<rparr>"
      "\<lparr>cwidth = 1920, cheight = 1080, content = frameBuffer example_recording\<rparr>"
      "\<lparr>readyState = 4, videoWidth = 1920, videoHeight = 1080\<rparr>"
      "\<lparr>readyState = 4, videoWidth = 640, videoHeight = 480\<rparr>"]
    overlay_geometry[of
      "configChanged (DEFAULT_CAMERA_CONFIG\<lparr>shape := square\<rparr>) example_recording"
      "\<lparr>has_roundRect = True\<rparr>"
      "\<lparr>cwidth = 1920, cheight = 1080, content = frameBuffer example_recording\<rparr>"
      "\<lparr>readyState = 4, videoWidth = 1920, videoHeight = 1080\<rparr>"
      "\<lparr>readyState = 4, videoWidth = 640, videoHeight = 480\<rparr>"]
  by (simp add: example_recording_eq frameBuffer_def DEFAULT_CAMERA_CONFIG_def coverFit_def
      configChanged_def Let_def)

section \<open>Chunks, artifacts and the idle state\<close>

lemma chunksRef_draw: "chunksRef (draw s) = chunksRef s"
  by (simp add: draw_def requestAnimationFrame_def split: option.splits)

lemma chunksRef_start_catch: "chunksRef (snd (start_catch e s)) = chunksRef s"
  by (simp add: start_catch_def cleanup_def)

lemma chunksRef_startRecording: "chunksRef (snd (startRecording env s)) = []"
  by (simp add: startRecording_def Let_def chunksRef_start_catch chunksRef_draw start_sync_def
      start_gotScreen_def start_gotUser_def start_playing_def start_canvas_def start_audio_def
      start_mix_def start_record_def split: sum.splits option.splits)

lemma chunksRef_handle:
  "chunksRef (handle e s) =
     (case e of Start env \<Rightarrow> []
      | DataAvailable b \<Rightarrow> chunksRef s @ filter (\<lambda>b. blob_size b > 0) [b]
      | _ \<Rightarrow> chunksRef s)"
  by (cases e)
     (simp_all add: chunksRef_startRecording chunksRef_draw togglePause_def stopRecording_def
        screen_onended_def timerTick_def mediaProgress_def configChanged_def ondataavailable_def
        recorder_onstop_def cleanup_def Let_def split: option.splits image_source.splits)

lemma chunksRef_run:
  "chunksRef (run evs s) =
     (if list_ex isStart evs then [] else chunksRef s) @
     filter (\<lambda>b. blob_size b > 0) (deliveredSinceStart evs)"
proof (induction evs arbitrary: s)
  case Nil
  then show ?case by simp
next
  case (Cons e es)
  show ?case
  proof (cases "list_ex isStart es")
    case True
    then show ?thesis by (simp add: Cons.IH)
  next
    case False
    then show ?thesis
      by (cases e) (simp_all add: Cons.IH chunksRef_handle del: handle.simps)
  qed
qed


lemma run_append: "run (xs @ ys) s = run ys (run xs s)"
  by (induction xs arbitrary: s) simp_all

lemma onStopCalls_draw: "onStopCalls (draw s) = onStopCalls s"
  by (simp add: draw_def requestAnimationFrame_def split: option.splits)

lemma onStopCalls_startRecording: "onStopCalls (snd (startRecording env s)) = onStopCalls s"
  by (simp add: startRecording_def Let_def start_catch_def cleanup_def onStopCalls_draw
      start_sync_def start_gotScreen_def start_gotUser_def start_playing_def start_canvas_def
      start_audio_def start_mix_def start_record_def split: sum.splits option.splits)

lemma onStopCalls_handle: "e \<noteq> RecorderStop \<Longrightarrow> onStopCalls (handle e s) = onStopCalls s"
  by (cases e)
     (simp_all add: onStopCalls_startRecording onStopCalls_draw togglePause_def
        stopRecording_def screen_onended_def timerTick_def mediaProgress_def configChanged_def
        ondataavailable_def split: option.splits image_source.splits)

lemma mimeType_draw: "mediaRecorderRef (draw s) = mediaRecorderRef s"
  by (simp add: draw_def requestAnimationFrame_def split: option.splits)

lemma mimeType_handle:
  "\<not> isStart e \<Longrightarrow>
     map_option mimeType (mediaRecorderRef (handle e s)) = map_option mimeType (mediaRecorderRef s)"
  by (cases e)
     (simp_all add: mimeType_draw togglePause_def stopRecording_def screen_onended_def
        timerTick_def mediaProgress_def configChanged_def ondataavailable_def recorder_onstop_def
        cleanup_def Let_def split: option.splits image_source.splits)

lemma mimeType_run:
  "\<forall>e\<in>set evs. \<not> isStart e \<Longrightarrow>
     map_option mimeType (mediaRecorderRef (run evs s)) = map_option mimeType (mediaRecorderRef s)"
  by (induction evs arbitrary: s) (simp_all add: mimeType_handle del: handle.simps)

lemma canvas_draw: "(canvasRef (draw s) = None) = (canvasRef s = None)"
  by (simp add: draw_def requestAnimationFrame_def split: option.splits)

lemma canvas_handle:
  "\<not> isStart e \<Longrightarrow> (canvasRef (handle e s) = None) = (canvasRef s = None)"
  by (cases e)
     (simp_all add: canvas_draw togglePause_def stopRecording_def screen_onended_def
        timerTick_def mediaProgress_def configChanged_def ondataavailable_def recorder_onstop_def
        cleanup_def Let_def split: option.splits image_source.splits)

lemma canvas_run:
  "\<forall>e\<in>set evs. \<not> isStart e \<Longrightarrow> (canvasRef (run evs s) = None) = (canvasRef s = None)"
  by (induction evs arbitrary: s) (simp_all add: canvas_handle del: handle.simps)

lemma onStopCalls_run:
  "\<forall>e\<in>set evs. e \<noteq> RecorderStop \<Longrightarrow> onStopCalls (run evs s) = onStopCalls s"
  by (induction evs arbitrary: s) (simp_all add: onStopCalls_handle del: handle.simps)

lemma onstop_delivers:
  assumes "mediaRecorderRef s = Some r" and "canvasRef s = Some cv"
  shows "onStopCalls (recorder_onstop s) =
     onStopCalls s @
     [\<lparr>blob = new_Blob (chunksRef s) (mimeType r),
       url = ObjectURL (new_Blob (chunksRef s) (mimeType r)),
       thumbnail = Some (DataURL ''image/png'' (content cv))\<rparr>]"
  using assms by (simp add: recorder_onstop_def cleanup_def toDataURL_def Let_def)

lemma onstop_delivers':
  assumes "map_option mimeType (mediaRecorderRef s) = Some m" and "canvasRef s \<noteq> None"
  shows "onStopCalls (recorder_onstop s) =
     onStopCalls s @
     [\<lparr>blob = new_Blob (chunksRef s) m, url = ObjectURL (new_Blob (chunksRef s) m),
       thumbnail = Some (DataURL ''image/png'' (frameBuffer s))\<rparr>]"
proof -
  obtain r where r: "mediaRecorderRef s = Some r" "mimeType r = m"
    using assms(1) by (cases "mediaRecorderRef s") auto
  obtain cv where cv: "canvasRef s = Some cv"
    using assms(2) by auto
  show ?thesis
    using onstop_delivers[OF r(1) cv] r(2) cv by (simp add: frameBuffer_def)
qed

lemma stop_then_flush:
  "chunksRef (ondataavailable fin (stopRecording s)) =
     chunksRef s @ filter (\<lambda>b. blob_size b > 0) [fin]"
  "onStopCalls (ondataavailable fin (stopRecording s)) = onStopCalls s"
  "frameBuffer (ondataavailable fin (stopRecording s)) = frameBuffer s"
  "map_option mimeType (mediaRecorderRef (ondataavailable fin (stopRecording s))) =
     map_option mimeType (mediaRecorderRef s)"
  "(canvasRef (ondataavailable fin (stopRecording s)) = None) = (canvasRef s = None)"
  by (simp_all add: ondataavailable_def stopRecording_def frameBuffer_def split: option.splits)

lemma deliveredSinceStart_noStart:
  "\<not> list_ex isStart evs \<Longrightarrow>
     deliveredSinceStart (evs @ [DataAvailable b]) = deliveredSinceStart evs @ [b]"
  by (induction evs) (auto split: event.splits)

text \<open>
  Claim C1. With a recorder and a canvas in place, the handler of the encoder's
  \<open>stop\<close> event calls \<open>onStop\<close> once, with a blob whose bytes are the chunks
  concatenated in the order they were pushed and whose type is the recorder's MIME
  type, and with a PNG data URL of the canvas content as thumbnail. No other event
  calls \<open>onStop\<close>: \<open>stopRecording\<close> itself delivers nothing. Over a whole session
  (any events other than a new start or the stop event, then \<open>stop()\<close>, the encoder's
  last \<open>dataavailable\<close> and its \<open>stop\<close> event) the artifact holds the chunks present
  at the beginning followed by the non-empty blobs delivered, the tail included, in
  delivery order, and the thumbnail is the frame buffer as the last tick left it.
\<close>

theorem stop_assembles_artifact:
  assumes "mediaRecorderRef s = Some r" and "canvasRef s = Some cv"
  shows "onStopCalls (recorder_onstop s) =
      onStopCalls s @
      [\<lparr>blob = \<lparr>bytes = concat (map bytes (chunksRef s)), blob_type = mimeType r\<rparr>,
        url = ObjectURL \<lparr>bytes = concat (map bytes (chunksRef s)), blob_type = mimeType r\<rparr>,
        thumbnail = Some (DataURL ''image/png'' (content cv))\<rparr>]
    \<and> (\<forall>e s'. e \<noteq> RecorderStop \<longrightarrow> onStopCalls (handle e s') = onStopCalls s')
    \<and> (\<forall>evs fin. (\<forall>e\<in>set evs. \<not> isStart e \<and> e \<noteq> RecorderStop) \<longrightarrow>
          onStopCalls (run (evs @ [StopRecording, DataAvailable fin, RecorderStop]) s) =
            onStopCalls s @
            [\<lparr>blob =
                \<lparr>bytes = concat (map bytes (chunksRef s @
                    filter (\<lambda>b. blob_size b > 0) (deliveredSinceStart (evs @ [DataAvailable fin])))),
                 blob_type = mimeType r\<rparr>,
              url = ObjectURL
                \<lparr>bytes = concat (map bytes (chunksRef s @
                    filter (\<lambda>b. blob_size b > 0) (deliveredSinceStart (evs @ [DataAvailable fin])))),
                 blob_type = mimeType r\<rparr>,
              thumbnail = Some (DataURL ''image/png'' (frameBuffer (run evs s)))\<rparr>])"
proof (intro conjI allI impI)
  show "onStopCalls (recorder_onstop s) =
      onStopCalls s @
      [\<lparr>blob = \<lparr>bytes = concat (map bytes (chunksRef s)), blob_type = mimeType r\<rparr>,
        url = ObjectURL \<lparr>bytes = concat (map bytes (chunksRef s)), blob_type = mimeType r\<rparr>,
        thumbnail = Some (DataURL ''image/png'' (content cv))\<rparr>]"
    using onstop_delivers[OF assms] by (simp add: new_Blob_def)
next
  fix e s' assume "e \<noteq> RecorderStop"
  then show "onStopCalls (handle e s') = onStopCalls s'" by (rule onStopCalls_handle)
next
  fix evs fin
  assume evs: "\<forall>e\<in>set evs. \<not> isStart e \<and> e \<noteq> RecorderStop"
  define s1 where "s1 = run evs s"
  define s2 where "s2 = ondataavailable fin (stopRecording s1)"
  have noStart: "\<not> list_ex isStart evs" using evs by (simp add: list_ex_iff)
  have m: "map_option mimeType (mediaRecorderRef s2) = Some (mimeType r)"
    using evs assms(1) by (simp add: s2_def s1_def stop_then_flush mimeType_run)
  have c: "canvasRef s2 \<noteq> None"
    using evs assms(2) by (simp add: s2_def s1_def stop_then_flush canvas_run)
  have ch: "chunksRef s2 = chunksRef s @
      filter (\<lambda>b. blob_size b > 0) (deliveredSinceStart (evs @ [DataAvailable fin]))"
    using noStart
    by (simp add: s2_def s1_def stop_then_flush chunksRef_run deliveredSinceStart_noStart)
  have calls: "onStopCalls s2 = onStopCalls s"
    using evs by (simp add: s2_def s1_def stop_then_flush onStopCalls_run)
  have fb: "frameBuffer s2 = frameBuffer (run evs s)"
    by (simp add: s2_def s1_def stop_then_flush)
  have "run (evs @ [StopRecording, DataAvailable fin, RecorderStop]) s = recorder_onstop s2"
    by (simp add: run_append s2_def s1_def)
  then show "onStopCalls (run (evs @ [StopRecording, DataAvailable fin, RecorderStop]) s) =
            onStopCalls s @
            [\<lparr>blob =
                \<lparr>bytes = concat (map bytes (chunksRef s @
                    filter (\<lambda>b. blob_size b > 0) (deliveredSinceStart (evs @ [DataAvailable fin])))),
                 blob_type = mimeType r\<rparr>,
              url = ObjectURL
                \<lparr>bytes = concat (map bytes (chunksRef s @
                    filter (\<lambda>b. blob_size b > 0) (deliveredSinceStart (evs @ [DataAvailable fin])))),
                 blob_type = mimeType r\<rparr>,
              thumbnail = Some (DataURL ''image/png'' (frameBuffer (run evs s)))\<rparr>]"
    using onstop_delivers'[OF m c] by (simp add: ch calls fb new_Blob_def)
qed


theorem stop_assembles_artifact_witness:
  "mediaRecorderRef example_recording = Some \<lparr>rstate = recording, mimeType = ''video/webm''\<rparr> \<and>
   map blob (onStopCalls (run
     ([DataAvailable \<lparr>bytes = ''ab'', blob_type = ''video/webm''\<rparr>, TimerTick, TogglePause,
       DataAvailable \<lparr>bytes = [], blob_type = ''video/webm''\<rparr>] @
      [StopRecording, DataAvailable \<lparr>bytes = ''c'', blob_type = ''video/webm''\<rparr>, RecorderStop])
     example_recording)) =
   [\<lparr>bytes = ''abc'', blob_type = ''video/webm''\<rparr>]"
  using stop_assembles_artifact[of example_recording
      "\<lparr>rstate = recording, mimeType = ''video/webm''\<rparr>"
      "\<lparr>cwidth = 1920, cheight = 1080, content = frameBuffer example_recording\<rparr>",
      THEN conjunct2, THEN conjunct2, THEN spec,
      of "[DataAvailable \<lparr>bytes = ''ab'', blob_type = ''video/webm''\<rparr>, TimerTick, TogglePause,
           DataAvailable \<lparr>bytes = [], blob_type = ''video/webm''\<rparr>]",
      THEN spec, of "\<lparr>bytes = ''c'', blob_type = ''video/webm''\<rparr>"]
  by (simp add: example_recording_eq frameBuffer_def blob_size_def)

lemma elapsed_startRecording:
  "elapsedTime (snd (startRecording env s)) = 0 \<and> \<not> isPaused (snd (startRecording env s))"
  by (simp add: startRecording_def Let_def start_catch_def cleanup_def draw_def
      requestAnimationFrame_def start_sync_def start_gotScreen_def start_gotUser_def
      start_playing_def start_canvas_def start_audio_def start_mix_def start_record_def
      split: sum.splits option.splits)

text \<open>
  Claim C10. After any sequence of events that contains a start (or begins with no
  chunks), \<open>chunksRef\<close> holds exactly the blobs of positive size delivered since the
  most recent start, in delivery order; none of them is empty; and the artifact that a
  \<open>stop\<close> event then produces is made of exactly these. The first, synchronous part
  of \<open>startRecording\<close> empties the chunks, zeroes the elapsed time and clears the
  paused flag and the error before any source is opened, and whatever the browser
  answers afterwards, the hook leaves \<open>startRecording\<close> with no chunks, zero elapsed
  time and not paused.
\<close>

theorem chunks_since_start:
  assumes "list_ex isStart evs \<or> chunksRef s = []"
  shows "chunksRef (run evs s) = filter (\<lambda>b. blob_size b > 0) (deliveredSinceStart evs)
    \<and> (\<forall>c\<in>set (chunksRef (run evs s)). blob_size c > 0)
    \<and> (\<forall>r cv. mediaRecorderRef (run evs s) = Some r \<and> canvasRef (run evs s) = Some cv \<longrightarrow>
          map blob (onStopCalls (run (evs @ [RecorderStop]) s)) =
            map blob (onStopCalls (run evs s)) @
            [new_Blob (filter (\<lambda>b. blob_size b > 0) (deliveredSinceStart evs)) (mimeType r)])
    \<and> chunksRef (start_sync s) = [] \<and> elapsedTime (start_sync s) = 0
    \<and> \<not> isPaused (start_sync s) \<and> error (start_sync s) = None
    \<and> screenStream (start_sync s) = screenStream s \<and> userStream (start_sync s) = userStream s
    \<and> (\<forall>env. chunksRef (handle (Start env) s) = [] \<and> elapsedTime (handle (Start env) s) = 0
          \<and> \<not> isPaused (handle (Start env) s))"
proof -
  have ch: "chunksRef (run evs s) = filter (\<lambda>b. blob_size b > 0) (deliveredSinceStart evs)"
    using assms by (auto simp: chunksRef_run)
  have ne: "\<forall>c\<in>set (chunksRef (run evs s)). blob_size c > 0"
    by (simp add: ch)
  have art: "\<forall>r cv. mediaRecorderRef (run evs s) = Some r \<and> canvasRef (run evs s) = Some cv \<longrightarrow>
          map blob (onStopCalls (run (evs @ [RecorderStop]) s)) =
            map blob (onStopCalls (run evs s)) @
            [new_Blob (filter (\<lambda>b. blob_size b > 0) (deliveredSinceStart evs)) (mimeType r)]"
    by (auto simp: run_append onstop_delivers ch)
  have sync: "chunksRef (start_sync s) = [] \<and> elapsedTime (start_sync s) = 0
    \<and> \<not> isPaused (start_sync s) \<and> error (start_sync s) = None
    \<and> screenStream (start_sync s) = screenStream s \<and> userStream (start_sync s) = userStream s"
    by (simp add: start_sync_def)
  have st: "\<forall>env. chunksRef (handle (Start env) s) = [] \<and> elapsedTime (handle (Start env) s) = 0
          \<and> \<not> isPaused (handle (Start env) s)"
    by (simp add: chunksRef_startRecording elapsed_startRecording)
  show ?thesis using ch ne art sync st by blast
qed

theorem chunks_since_start_witness:
  "list_ex isStart
     [DataAvailable \<lparr>bytes = ''old'', blob_type = ''video/webm''\<rparr>, Start example_env,
      DataAvailable \<lparr>bytes = ''ab'', blob_type = ''video/webm''\<rparr>,
      DataAvailable \<lparr>bytes = [], blob_type = ''video/webm''\<rparr>,
      DataAvailable \<lparr>bytes = ''c'', blob_type = ''video/webm''\<rparr>] \<and>
   chunksRef (run
     [DataAvailable \<lparr>bytes = ''old'', blob_type = ''video/webm''\<rparr>, Start example_env,
      DataAvailable \<lparr>bytes = ''ab'', blob_type = ''video/webm''\<rparr>,
      DataAvailable \<lparr>bytes = [], blob_type = ''video/webm''\<rparr>,
      DataAvailable \<lparr>bytes = ''c'', blob_type = ''video/webm''\<rparr>] example_idle) =
   [\<lparr>bytes = ''ab'', blob_type = ''video/webm''\<rparr>, \<lparr>bytes = ''c'', blob_type = ''video/webm''\<rparr>]"
  using chunks_since_start[of
     "[DataAvailable \<lparr>bytes = ''old'', blob_type = ''video/webm''\<rparr>, Start example_env,
      DataAvailable \<lparr>bytes = ''ab'', blob_type = ''video/webm''\<rparr>,
      DataAvailable \<lparr>bytes = [], blob_type = ''video/webm''\<rparr>,
      DataAvailable \<lparr>bytes = ''c'', blob_type = ''video/webm''\<rparr>]" example_idle]
  by (simp add: blob_size_def)

lemma noop_inactive:
  assumes "mediaRecorderRef s = None \<or> map_option rstate (mediaRecorderRef s) = Some inactive"
  shows "togglePause s = s" and "stopRecording s = s"
  using assms by (auto simp: togglePause_def stopRecording_def split: option.splits)

text \<open>
  Claim C9. While there is no recorder, or the recorder is inactive, \<open>togglePause\<close>
  (which is both \<open>pause()\<close> and \<open>resume()\<close>) and \<open>stopRecording\<close> return the
  state unchanged, and so does any sequence of them: no field changes, no error is set,
  \<open>onStop\<close> is not called. Both functions are total, so nothing is raised.
\<close>

theorem idle_operations_are_noops:
  assumes "mediaRecorderRef s = None \<or> map_option rstate (mediaRecorderRef s) = Some inactive"
  shows "togglePause s = s \<and> stopRecording s = s \<and>
    (\<forall>evs. set evs \<subseteq> {TogglePause, StopRecording} \<longrightarrow>
       run evs s = s \<and> onStopCalls (run evs s) = onStopCalls s \<and> error (run evs s) = error s)"
proof -
  have "run evs s = s" if "set evs \<subseteq> {TogglePause, StopRecording}" for evs
    using that by (induction evs) (auto simp: noop_inactive[OF assms])
  then show ?thesis using noop_inactive[OF assms] by simp
qed

theorem idle_operations_are_noops_witness:
  "mediaRecorderRef example_idle = None \<and>
   togglePause example_idle = example_idle \<and> stopRecording example_idle = example_idle \<and>
   map_option rstate (mediaRecorderRef
      (run [StopRecording, RecorderStop] example_recording)) = Some inactive \<and>
   togglePause (run [StopRecording, RecorderStop] example_recording) =
      run [StopRecording, RecorderStop] example_recording \<and>
   stopRecording (run [StopRecording, RecorderStop] example_recording) =
      run [StopRecording, RecorderStop] example_recording"
  using idle_operations_are_noops[of example_idle]
    idle_operations_are_noops[of "run [StopRecording, RecorderStop] example_recording"]
  by (simp add: example_idle_def mountCanvas_def initial_def example_recording_eq
      stopRecording_def recorder_onstop_def cleanup_def Let_def)

section \<open>Pause and resume\<close>

lemma timerTick_paused: "isPaused s \<Longrightarrow> (timerTick ^^ k) s = s"
  by (induction k) (simp_all add: timerTick_def)

lemma pause_from_recording:
  assumes "mediaRecorderRef s = Some r" and "rstate r = recording"
  shows "togglePause s = s\<lparr>mediaRecorderRef := Some (r\<lparr>rstate := paused\<rparr>), isPaused := True\<rparr>"
  using assms by (simp add: togglePause_def)

lemma resume_from_paused:
  assumes "mediaRecorderRef s = Some r" and "rstate r = paused"
  shows "togglePause s = s\<lparr>mediaRecorderRef := Some (r\<lparr>rstate := recording\<rparr>), isPaused := False\<rparr>"
  using assms by (simp add: togglePause_def)

lemma pause_resume_identity:
  assumes "mediaRecorderRef s = Some r" and "rstate r = recording" and "\<not> isPaused s"
  shows "togglePause (togglePause s) = s"
proof -
  let ?p = "s\<lparr>mediaRecorderRef := Some (r\<lparr>rstate := paused\<rparr>), isPaused := True\<rparr>"
  have r: "r\<lparr>rstate := recording\<rparr> = r" using assms(2) by simp
  have "togglePause (togglePause s) = togglePause ?p"
    by (simp only: pause_from_recording[OF assms(1,2)])
  also have "\<dots> = ?p\<lparr>mediaRecorderRef := Some (r\<lparr>rstate := paused, rstate := recording\<rparr>),
      isPaused := False\<rparr>"
    by (rule resume_from_paused) simp_all
  also have "\<dots> = s" using assms(1,3) by (simp add: r)
  finally show ?thesis .
qed

text \<open>
  Claim C3. In a recording session (recorder in state \<open>recording\<close>, not paused,
  compositor running), \<open>togglePause\<close> puts the recorder into state \<open>paused\<close> and
  sets \<open>isPaused\<close>; from then on no number of timer firings changes the elapsed
  time, while an animation frame still runs \<open>draw\<close>, which draws the tick onto the
  canvas and requests the next frame. A second \<open>togglePause\<close>, at once or after any
  number of timer firings, gives back exactly the state before the pause: the recorder
  records, the timer counts again, the elapsed time and the chunks are what they were.
  Pausing and resuming between two deliveries of data leaves the chunks as if there had
  been no pause: nothing is dropped or pushed twice.
\<close>

theorem pause_freezes_timer_not_compositor:
  assumes "mediaRecorderRef s = Some r" and "rstate r = recording"
    and "isRecording s" and "\<not> isPaused s"
    and "ctx s = Some c" and "canvasRef s = Some cv" and "screenVideoRef s = Some sv"
    and "cameraVideoRef s = Some cam" and "animationFrameRef s = Some n"
  shows "map_option rstate (mediaRecorderRef (togglePause s)) = Some paused
    \<and> isPaused (togglePause s)
    \<and> (\<forall>k. elapsedTime ((timerTick ^^ k) (togglePause s)) = elapsedTime s)
    \<and> handle AnimationFrame (togglePause s) = draw (togglePause s)
    \<and> frameBuffer (draw (togglePause s)) = frameBuffer s @ drawOps c cv sv cam (configRef s)
    \<and> drawOps c cv sv cam (configRef s) \<noteq> []
    \<and> animationFrameRef (draw (togglePause s)) \<noteq> None
    \<and> togglePause (togglePause s) = s
    \<and> (\<forall>k. togglePause ((timerTick ^^ k) (togglePause s)) = s)
    \<and> elapsedTime (timerTick s) = elapsedTime s + 1
    \<and> chunksRef (togglePause s) = chunksRef s
    \<and> (\<forall>a b. chunksRef (run [DataAvailable a, TogglePause, TogglePause, DataAvailable b] s) =
               chunksRef (run [DataAvailable a, DataAvailable b] s))"
proof -
  let ?p = "togglePause s"
  have p: "?p = s\<lparr>mediaRecorderRef := Some (r\<lparr>rstate := paused\<rparr>), isPaused := True\<rparr>"
    by (rule pause_from_recording[OF assms(1,2)])
  have paused: "isPaused ?p" by (simp add: p)
  have st: "map_option rstate (mediaRecorderRef ?p) = Some paused" by (simp add: p)
  have frozen: "\<forall>k. (timerTick ^^ k) ?p = ?p"
    using timerTick_paused[OF paused] by simp
  have el: "elapsedTime ?p = elapsedTime s" by (simp add: p)
  have live: "ctx ?p = Some c" "canvasRef ?p = Some cv" "screenVideoRef ?p = Some sv"
    "cameraVideoRef ?p = Some cam"
    using assms by (simp_all add: p)
  have af: "handle AnimationFrame ?p = draw ?p" using assms(9) by (simp add: p)
  have fb: "frameBuffer (draw ?p) = frameBuffer s @ drawOps c cv sv cam (configRef s)"
    using frameBuffer_draw[OF live] by (simp add: p frameBuffer_def)
  have ops: "drawOps c cv sv cam (configRef s) \<noteq> []"
    by (simp add: drawOps_def screenOps_def)
  have nf: "animationFrameRef (draw ?p) \<noteq> None"
    by (simp add: draw_live[OF live] requestAnimationFrame_def)
  have resumed: "togglePause ?p = s"
    by (rule pause_resume_identity[OF assms(1,2,4)])
  have tick: "elapsedTime (timerTick s) = elapsedTime s + 1"
    using assms(3,4) by (simp add: timerTick_def)
  have ch: "chunksRef ?p = chunksRef s" by (simp add: p)
  have cont: "\<forall>a b. chunksRef (run [DataAvailable a, TogglePause, TogglePause, DataAvailable b] s) =
               chunksRef (run [DataAvailable a, DataAvailable b] s)"
    by (simp add: ondataavailable_def togglePause_def split: option.splits)
  show ?thesis
    using st paused frozen el af fb ops nf resumed tick ch cont by simp
qed

theorem pause_freezes_timer_not_compositor_witness:
  "mediaRecorderRef example_recording = Some \<lparr>rstate = recording, mimeType = ''video/webm''\<rparr> \<and>
   isRecording example_recording \<and> \<not> isPaused example_recording \<and>
   animationFrameRef example_recording = Some 1 \<and>
   elapsedTime (run [TimerTick, TimerTick, TogglePause, TimerTick, AnimationFrame, TimerTick,
      TogglePause, TimerTick] example_recording) = 3 \<and>
   togglePause (togglePause example_recording) = example_recording"
  using pause_freezes_timer_not_compositor[of example_recording
      "\<lparr>rstate = recording, mimeType = ''video/webm''\<rparr>"
      "\<lparr>has_roundRect = True\<rparr>"
      "\<lparr>cwidth = 1920, cheight = 1080, content = frameBuffer example_recording\<rparr>"
      "\<lparr>readyState = 4, videoWidth = 1920, videoHeight = 1080\<rparr>"
      "\<lparr>readyState = 4, videoWidth = 640, videoHeight = 480\<rparr>" 1]
  by (simp add: example_recording_eq frameBuffer_def timerTick_def togglePause_def draw_def
      requestAnimationFrame_def)

section \<open>External end of the screen source\<close>

lemma blob_size_new_Blob:
  "(blob_size (new_Blob cs m) > 0) = (\<exists>c\<in>set cs. blob_size c > 0)"
  by (induction cs) (auto simp: new_Blob_def blob_size_def)

lemma stop_active:
  assumes "mediaRecorderRef s = Some r" and "rstate r \<noteq> inactive"
  shows "stopRecording s =
     s\<lparr>mediaRecorderRef := Some (r\<lparr>rstate := inactive\<rparr>), isRecording := False,
       isPaused := False\<rparr>"
  using assms by (simp add: stopRecording_def)

text \<open>
  Claim C2, as amended. When the recorder is active (recording or paused) and the
  screen track ends, the handler does what \<open>stopRecording\<close> does: the recorder becomes
  inactive, the flags are cleared, no error is set and nothing is delivered yet; when
  the encoder's last \<open>dataavailable\<close> and its \<open>stop\<close> event follow, exactly one
  artifact is delivered, made of the chunks and the non-empty tail, with the thumbnail,
  still without an error. That artifact has bytes if and only if some chunk or the tail
  has. Without a recorder, or with an inactive one, the end of the screen track changes
  nothing.
\<close>

theorem screen_end_stops_active_recorder:
  "(mediaRecorderRef s = Some r \<and> rstate r \<noteq> inactive \<and> canvasRef s = Some cv \<longrightarrow>
      screen_onended s = stopRecording s
      \<and> error (screen_onended s) = error s
      \<and> map_option rstate (mediaRecorderRef (screen_onended s)) = Some inactive
      \<and> \<not> isRecording (screen_onended s) \<and> \<not> isPaused (screen_onended s)
      \<and> onStopCalls (screen_onended s) = onStopCalls s
      \<and> (\<forall>fin.
            onStopCalls (run [ScreenEnded, DataAvailable fin, RecorderStop] s) =
              onStopCalls s @
              [\<lparr>blob = new_Blob (chunksRef s @ filter (\<lambda>b. blob_size b > 0) [fin]) (mimeType r),
                url = ObjectURL
                  (new_Blob (chunksRef s @ filter (\<lambda>b. blob_size b > 0) [fin]) (mimeType r)),
                thumbnail = Some (DataURL ''image/png'' (content cv))\<rparr>]
            \<and> error (run [ScreenEnded, DataAvailable fin, RecorderStop] s) = error s
            \<and> (blob_size
                  (new_Blob (chunksRef s @ filter (\<lambda>b. blob_size b > 0) [fin]) (mimeType r)) > 0
                \<longleftrightarrow> (\<exists>c\<in>set (chunksRef s @ [fin]). blob_size c > 0))))
   \<and> (mediaRecorderRef s = None \<or> map_option rstate (mediaRecorderRef s) = Some inactive \<longrightarrow>
        screen_onended s = s)"
proof (intro conjI impI)
  assume "mediaRecorderRef s = None \<or> map_option rstate (mediaRecorderRef s) = Some inactive"
  then show "screen_onended s = s"
    by (simp add: screen_onended_def noop_inactive)
next
  assume a: "mediaRecorderRef s = Some r \<and> rstate r \<noteq> inactive \<and> canvasRef s = Some cv"
  then have r: "mediaRecorderRef s = Some r" and act: "rstate r \<noteq> inactive"
    and cv: "canvasRef s = Some cv" by simp_all
  note st = stop_active[OF r act]
  show "screen_onended s = stopRecording s" by (simp add: screen_onended_def)
  show "error (screen_onended s) = error s" by (simp add: screen_onended_def st)
  show "map_option rstate (mediaRecorderRef (screen_onended s)) = Some inactive"
    by (simp add: screen_onended_def st)
  show "\<not> isRecording (screen_onended s)" by (simp add: screen_onended_def st)
  show "\<not> isPaused (screen_onended s)" by (simp add: screen_onended_def st)
  show "onStopCalls (screen_onended s) = onStopCalls s" by (simp add: screen_onended_def st)
  show "\<forall>fin.
            onStopCalls (run [ScreenEnded, DataAvailable fin, RecorderStop] s) =
              onStopCalls s @
              [\<lparr>blob = new_Blob (chunksRef s @ filter (\<lambda>b. blob_size b > 0) [fin]) (mimeType r),
                url = ObjectURL
                  (new_Blob (chunksRef s @ filter (\<lambda>b. blob_size b > 0) [fin]) (mimeType r)),
                thumbnail = Some (DataURL ''image/png'' (content cv))\<rparr>]
            \<and> error (run [ScreenEnded, DataAvailable fin, RecorderStop] s) = error s
            \<and> (blob_size
                  (new_Blob (chunksRef s @ filter (\<lambda>b. blob_size b > 0) [fin]) (mimeType r)) > 0
                \<longleftrightarrow> (\<exists>c\<in>set (chunksRef s @ [fin]). blob_size c > 0))"
  proof (intro allI conjI)
    fix fin
    let ?s2 = "ondataavailable fin (stopRecording s)"
    have m: "mediaRecorderRef ?s2 = Some (r\<lparr>rstate := inactive\<rparr>)"
      by (simp add: st ondataavailable_def)
    have c: "canvasRef ?s2 = Some cv"
      using cv by (simp add: st ondataavailable_def)
    have run_eq: "run [ScreenEnded, DataAvailable fin, RecorderStop] s = recorder_onstop ?s2"
      by (simp add: screen_onended_def)
    show "onStopCalls (run [ScreenEnded, DataAvailable fin, RecorderStop] s) =
              onStopCalls s @
              [\<lparr>blob = new_Blob (chunksRef s @ filter (\<lambda>b. blob_size b > 0) [fin]) (mimeType r),
                url = ObjectURL
                  (new_Blob (chunksRef s @ filter (\<lambda>b. blob_size b > 0) [fin]) (mimeType r)),
                thumbnail = Some (DataURL ''image/png'' (content cv))\<rparr>]"
      unfolding run_eq onstop_delivers[OF m c] by (simp add: stop_then_flush)
    show "error (run [ScreenEnded, DataAvailable fin, RecorderStop] s) = error s"
      unfolding run_eq using m c
      by (simp add: recorder_onstop_def cleanup_def Let_def st ondataavailable_def)
    show "blob_size
            (new_Blob (chunksRef s @ filter (\<lambda>b. blob_size b > 0) [fin]) (mimeType r)) > 0
          \<longleftrightarrow> (\<exists>c\<in>set (chunksRef s @ [fin]). blob_size c > 0)"
      unfolding blob_size_new_Blob by auto
  qed
qed

theorem screen_end_stops_active_recorder_witness:
  "mediaRecorderRef example_recording = Some \<lparr>rstate = recording, mimeType = ''video/webm''\<rparr> \<and>
   map blob (onStopCalls (run [ScreenEnded,
        DataAvailable \<lparr>bytes = ''xyz'', blob_type = ''video/webm''\<rparr>, RecorderStop]
      example_recording)) = [\<lparr>bytes = ''xyz'', blob_type = ''video/webm''\<rparr>] \<and>
   error (run [ScreenEnded,
        DataAvailable \<lparr>bytes = ''xyz'', blob_type = ''video/webm''\<rparr>, RecorderStop]
      example_recording) = None \<and>
   mediaRecorderRef example_idle = None \<and> screen_onended example_idle = example_idle"
  using screen_end_stops_active_recorder[of example_recording
      "\<lparr>rstate = recording, mimeType = ''video/webm''\<rparr>"
      "\<lparr>cwidth = 1920, cheight = 1080, content = frameBuffer example_recording\<rparr>"]
    screen_end_stops_active_recorder[of example_idle]
  by (simp add: example_recording_eq frameBuffer_def blob_size_def new_Blob_def
      example_idle_def mountCanvas_def initial_def screen_onended_def stopRecording_def
      recorder_onstop_def ondataavailable_def cleanup_def toDataURL_def Let_def)

text \<open>
  The two restrictions are needed. While \<open>startRecording\<close> waits for the camera the
  screen stream is already open, and its end then changes nothing and delivers nothing,
  whatever follows; and a recording session whose encoder has delivered no bytes ends
  with an artifact of size zero.
\<close>

theorem screen_end_counterexample:
  "screenStream (start_gotScreen example_screen (start_sync example_idle)) = Some example_screen \<and>
   run [ScreenEnded] (start_gotScreen example_screen (start_sync example_idle)) =
     start_gotScreen example_screen (start_sync example_idle) \<and>
   onStopCalls (run [ScreenEnded, RecorderStop]
     (start_gotScreen example_screen (start_sync example_idle))) = [] \<and>
   map blob (onStopCalls (run [ScreenEnded,
        DataAvailable \<lparr>bytes = [], blob_type = ''video/webm''\<rparr>, RecorderStop]
      example_recording)) = [\<lparr>bytes = [], blob_type = ''video/webm''\<rparr>]"
  by (simp add: example_recording_eq start_gotScreen_def start_sync_def example_idle_def
      mountCanvas_def initial_def screen_onended_def stopRecording_def recorder_onstop_def
      ondataavailable_def blob_size_def cleanup_def new_Blob_def toDataURL_def Let_def)

section \<open>Failures of startRecording\<close>

lemma fst_start_catch: "fst (start_catch e s) = Inl e"
  by (simp add: start_catch_def)

lemma startRecording_failure:
  assumes "fst (startRecording env s) = Inl e"
  shows "isRecording (snd (startRecording env s)) = isRecording s
    \<and> mediaRecorderRef (snd (startRecording env s)) = mediaRecorderRef s
    \<and> error (snd (startRecording env s)) =
         Some (if message e = [] then ''Failed to start recording'' else message e)
    \<and> screenVideoRef (snd (startRecording env s)) = None
    \<and> cameraVideoRef (snd (startRecording env s)) = None
    \<and> audioContextRef (snd (startRecording env s)) = None"
  using assms
  by (auto simp: startRecording_def Let_def start_catch_def cleanup_def draw_def
      requestAnimationFrame_def start_sync_def start_gotScreen_def start_gotUser_def
      start_playing_def start_canvas_def start_audio_def start_mix_def start_record_def
      split: sum.splits option.splits if_splits)

lemma startRecording_no_format:
  assumes "displayMedia env = Inr scr" "userMedia env = Inr usr" "played env = Inr vids"
    "canvasRef s \<noteq> None" "audioSuspended env \<longrightarrow> audioResume env = None"
    "\<forall>t\<in>set mime_types. \<not> isTypeSupported env t"
  shows "fst (startRecording env s) = Inl (Exn ''No supported video MIME type found'')"
proof -
  have "find (isTypeSupported env) mime_types = None"
    using assms(6) by (simp add: find_None_iff)
  then have "getSupportedMimeType (isTypeSupported env) = []"
    by (simp add: getSupportedMimeType_def)
  then show ?thesis
    using assms(1-5)
    by (auto simp: startRecording_def Let_def start_catch_def start_sync_def
        start_gotScreen_def start_gotUser_def start_playing_def split: option.splits)
qed

lemma capture_streams_never_stopped:
  assumes "displayMedia env = Inr scr"
  shows "screenStream (snd (startRecording env s)) = Some scr"
  using assms
  by (auto simp: startRecording_def Let_def start_catch_def cleanup_def draw_def
      requestAnimationFrame_def start_sync_def start_gotScreen_def start_gotUser_def
      start_playing_def start_canvas_def start_audio_def start_mix_def start_record_def
      split: sum.splits option.splits if_splits)

text \<open>
  Claim C4 says that every failure of \<open>startRecording\<close> releases whatever was opened.
  With a browser that supports none of the four formats, \<open>startRecording\<close> fails with
  the no-format error as a value, the hook is not recording, the message is stored in
  \<open>error\<close>, the video elements, the audio context and the animation frame are
  released and the tracks of the combined stream are stopped; but \<open>stop()\<close> has been
  called on no track of the screen stream or of the camera stream, which stay open.
\<close>

theorem start_failure_leaves_capture_running:
  "fst (startRecording example_env_unsupported example_idle) =
     Inl (Exn ''No supported video MIME type found'') \<and>
   \<not> isRecording (snd (startRecording example_env_unsupported example_idle)) \<and>
   error (snd (startRecording example_env_unsupported example_idle)) =
     Some ''No supported video MIME type found'' \<and>
   mediaRecorderRef (snd (startRecording example_env_unsupported example_idle)) = None \<and>
   screenVideoRef (snd (startRecording example_env_unsupported example_idle)) = None \<and>
   cameraVideoRef (snd (startRecording example_env_unsupported example_idle)) = None \<and>
   audioContextRef (snd (startRecording example_env_unsupported example_idle)) = None \<and>
   animationFrameRef (snd (startRecording example_env_unsupported example_idle)) = None \<and>
   map_option tracksStopped (streamRef (snd (startRecording example_env_unsupported example_idle)))
     = Some True \<and>
   map_option tracksStopped
     (screenStream (snd (startRecording example_env_unsupported example_idle))) = Some False \<and>
   map_option tracksStopped
     (userStream (snd (startRecording example_env_unsupported example_idle))) = Some False"
  by (simp add: example_env_unsupported_def start_defs draw_defs example_defs cleanup_def Let_def)

section \<open>Dragging and resizing the overlay\<close>

lemma clamp_unit:
  fixes b t :: real
  assumes "b \<le> 1"
  shows "0 \<le> max 0 (min (1 - b) t) \<and> max 0 (min (1 - b) t) \<le> 1 - b"
  using assms by auto

lemma box_fraction_le_1:
  fixes w h sz :: real
  assumes "0 < w" "0 < h" "0 \<le> sz" "sz \<le> 1"
  shows "min w h * sz / w \<le> 1" and "min w h * sz / h \<le> 1"
proof -
  have m: "0 \<le> min w h" using assms by simp
  have "min w h * sz \<le> min w h * 1" using m assms(4) by (intro mult_left_mono) auto
  then have le: "min w h * sz \<le> min w h" by simp
  from le have "min w h * sz \<le> w" by simp
  then show "min w h * sz / w \<le> 1" using assms(1) by (simp add: divide_le_eq)
  from le have "min w h * sz \<le> h" by simp
  then show "min w h * sz / h \<le> 1" using assms(2) by (simp add: divide_le_eq)
qed

lemma drag_keeps_box_in_frame:
  assumes "draggingRef ov = Some d"
    and "0 < bwidth (containerBounds ov)" and "0 < bheight (containerBounds ov)"
    and "0 \<le> size_cam (cameraConfig ov)" and "size_cam (cameraConfig ov) \<le> 1"
  shows "\<exists>cfg. dragUpdate e ov = [cfg] \<and> size_cam cfg = size_cam (cameraConfig ov) \<and>
     boxInFrame cfg (bwidth (containerBounds ov)) (bheight (containerBounds ov))"
proof -
  let ?w = "bwidth (containerBounds ov)" and ?h = "bheight (containerBounds ov)"
  let ?sz = "size_cam (cameraConfig ov)"
  have px: "cameraPixelSize ov = min ?w ?h * ?sz"
    using assms(2,3) by (simp add: cameraPixelSize_def or100_def)
  note fr = box_fraction_le_1[OF assms(2,3,4,5)]
  show ?thesis
    using assms(1,2) clamp_unit[OF fr(1)] clamp_unit[OF fr(2)]
    by (simp add: dragUpdate_def Let_def boxInFrame_def px)
qed

text \<open>
  Claim C8 says that after any drag or resize the overlay box lies inside the frame.
  A drag keeps it there (\<open>drag_keeps_box_in_frame\<close>). A resize does not: in a
  container of 1600 by 900, with the default configuration, whose box is inside the
  frame, pressing the resize handle and moving the pointer 360 pixels down sets the size
  to 0.5 and leaves the position at (0.05, 0.7), so that the box reaches from 630 to
  1080 pixels in a frame of height 900.
\<close>

theorem resize_pushes_box_out_of_frame:
  "boxInFrame (cameraConfig example_overlay) 1600 900 \<and>
   cameraConfig (handlePointerMove \<lparr>clientX = 500, clientY = 860\<rparr>
      (handleResizePointerDown \<lparr>clientX = 500, clientY = 500\<rparr> example_overlay)) =
     DEFAULT_CAMERA_CONFIG\<lparr>size_cam := 0.5\<rparr> \<and>
   \<not> boxInFrame (cameraConfig (handlePointerMove \<lparr>clientX = 500, clientY = 860\<rparr>
      (handleResizePointerDown \<lparr>clientX = 500, clientY = 500\<rparr> example_overlay))) 1600 900 \<and>
   pos_y (position (DEFAULT_CAMERA_CONFIG\<lparr>size_cam := 0.5\<rparr>)) * 900 +
     cameraPixelSize (handlePointerMove \<lparr>clientX = 500, clientY = 860\<rparr>
      (handleResizePointerDown \<lparr>clientX = 500, clientY = 500\<rparr> example_overlay)) = 1080"
  by (simp add: example_overlay_def DEFAULT_CAMERA_CONFIG_def handlePointerMove_def
      handleResizePointerDown_def dragUpdate_def resizeUpdate_def boxInFrame_def
      cameraPixelSize_def or100_def Let_def)

end
